theory Spec2Isabelle
  imports Main "HOL-Library.AList"
begin

section \<open>The reminder plugin (src/main.py) as a state-passing model\<close>

text \<open>
  The plugin object of \<^verbatim>\<open>class Main\<close> holds the in-memory document
  \<^verbatim>\<open>self.reminder_data\<close> (a dict from conversation id to a list of reminder dicts),
  the scheduling engine \<^verbatim>\<open>self.scheduler\<close> and, on disk, the JSON file that
  \<^verbatim>\<open>_save_data\<close> rewrites. Each method becomes a function that takes the object
  state and returns its result together with the new state; every \<^verbatim>\<open>raise\<close> is a
  value of type \<open>error\<close>.

  Python strings are byte lists (UTF-8), so the non-ASCII literals of the source
  appear as explicit bytes. Python dicts keep insertion order and are association
  lists here: \<open>map_of\<close> reads a key and \<open>AList.update\<close> writes one (in place when the
  key exists, at the end otherwise).
\<close>

subsection \<open>Errors\<close>

text \<open>
  The three places a \<^verbatim>\<open>ValueError\<close> comes from are kept apart by their message:
  \<open>Both_none\<close> is the plugin's own
  \<^verbatim>\<open>ValueError("The cron_expression and datetime_str cannot be both None.")\<close> (line 105),
  \<open>Time_data\<close> is raised by \<^verbatim>\<open>datetime.strptime\<close> on a string that does not match the
  format, \<open>Cron_field\<close> by the engine's cron trigger on a field it cannot read.
  \<open>IndexError\<close> is \<^verbatim>\<open>fields[i]\<close> out of range, \<open>TypeError\<close> is \<^verbatim>\<open>strptime(None, ...)\<close>,
  \<open>ConflictingIdError\<close> and \<open>JobLookupError\<close> are the engine's.
\<close>

datatype value_error = Both_none | Time_data | Cron_field

datatype error =
    ValueError value_error
  | IndexError
  | TypeError
  | ConflictingIdError
  | JobLookupError

subsection \<open>Reminder records\<close>

text \<open>
  A reminder is a dict with the keys \<^verbatim>\<open>text\<close>, \<^verbatim>\<open>id\<close>, \<^verbatim>\<open>datetime\<close>, \<^verbatim>\<open>cron\<close>,
  \<^verbatim>\<open>cron_h\<close>. A field is \<open>None\<close> when the key is absent; for \<^verbatim>\<open>cron_h\<close>, which the
  source reads only through \<^verbatim>\<open>.get\<close>, \<open>None\<close> also stands for a stored \<^verbatim>\<open>None\<close>.
\<close>

record reminder =
  r_text :: string
  r_id :: "string option"
  r_datetime :: "string option"
  r_cron :: "string option"
  r_cron_h :: "string option"

type_synonym document = "(string \<times> reminder list) list"

definition dict_get :: "('k \<times> 'v) list \<Rightarrow> 'k \<Rightarrow> 'v \<Rightarrow> 'v" where
  \<comment> \<open>\<^verbatim>\<open>d.get(k, default)\<close>\<close>
  "dict_get d k dflt = (case map_of d k of None \<Rightarrow> dflt | Some v \<Rightarrow> v)"

definition truthy :: "string option \<Rightarrow> bool" where
  \<comment> \<open>truth value of an optional string argument: \<^verbatim>\<open>None\<close> and \<^verbatim>\<open>""\<close> are false\<close>
  "truthy a = (case a of None \<Rightarrow> False | Some s \<Rightarrow> s \<noteq> [])"

definition default_text :: string where
  \<comment> \<open>the placeholder of line 110, seven CJK characters meaning "unnamed to-do item"\<close>
  "default_text =
     [CHR 0xE6, CHR 0x9C, CHR 0xAA, CHR 0xE5, CHR 0x91, CHR 0xBD, CHR 0xE5,
      CHR 0x90, CHR 0x8D, CHR 0xE5, CHR 0xBE, CHR 0x85, CHR 0xE5, CHR 0x8A,
      CHR 0x9E, CHR 0xE4, CHR 0xBA, CHR 0x8B, CHR 0xE9, CHR 0xA1, CHR 0xB9]"

definition time_format :: string where
  "time_format = ''%Y-%m-%d %H:%M''"

subsection \<open>The libraries the plugin calls\<close>

text \<open>
  \<^verbatim>\<open>datetime.strptime\<close>, \<^verbatim>\<open>uuid.uuid4\<close> and the cron trigger of the scheduling
  engine are not code of the plugin: they are parameters. \<open>strptime lib s fmt\<close> is
  \<open>None\<close> where the library raises \<^verbatim>\<open>ValueError\<close>; \<open>uuid4 lib n\<close> is the \<open>n\<close>-th
  identifier drawn; \<open>cron_trigger lib fields\<close> tells whether the engine accepts the
  five field expressions. Instants are values of any linear order \<open>'t\<close>: the source
  compares the parsed wall-clock time with \<^verbatim>\<open>datetime.now\<close> in the same zone.
\<close>

record cron_fields =
  minute :: string
  hour :: string
  day :: string
  month :: string
  day_of_week :: string

record 't lib =
  strptime :: "string \<Rightarrow> string \<Rightarrow> 't option"
  uuid4 :: "nat \<Rightarrow> string"
  cron_trigger :: "cron_fields \<Rightarrow> bool"

datatype 't trigger = Date 't | Cron cron_fields

record 't job =
  job_id :: string
  job_trigger :: "'t trigger"
  job_args :: "string \<times> reminder"

text \<open>
  The engine keeps its jobs in submission order. Before \<^verbatim>\<open>start()\<close> a submitted
  job is only queued; once running, a second job under an id already known is
  refused. \<^verbatim>\<open>remove_job\<close> cancels the first job with the id and raises
  \<^verbatim>\<open>JobLookupError\<close> when there is none.
\<close>

record 't scheduler =
  running :: bool
  jobs :: "'t job list"

definition add_job :: "'t scheduler \<Rightarrow> 't job \<Rightarrow> error + 't scheduler" where
  "add_job s j =
     (if running s \<and> job_id j \<in> set (map job_id (jobs s)) then Inl ConflictingIdError
      else Inr (s\<lparr>jobs := jobs s @ [j]\<rparr>))"

fun cancel :: "string \<Rightarrow> 't job list \<Rightarrow> 't job list" where
  "cancel i [] = []"
| "cancel i (j # js) = (if job_id j = i then js else j # cancel i js)"

definition remove_job :: "'t scheduler \<Rightarrow> string option \<Rightarrow> error + 't scheduler" where
  "remove_job s i =
     (case i of
        None \<Rightarrow> Inl JobLookupError
      | Some k \<Rightarrow>
          if k \<in> set (map job_id (jobs s)) then Inr (s\<lparr>jobs := cancel k (jobs s)\<rparr>)
          else Inl JobLookupError)"

subsection \<open>The plugin object\<close>

record 't plugin =
  reminder_data :: document
  scheduler :: "'t scheduler"
  reminder_file :: document
  uuid_drawn :: nat

definition save_data :: "'t plugin \<Rightarrow> 't plugin" where
  \<comment> \<open>\<^verbatim>\<open>_save_data\<close>: the file is rewritten with the whole in-memory document\<close>
  "save_data st = st\<lparr>reminder_file := reminder_data st\<rparr>"

subsection \<open>Cron expressions\<close>

text \<open>\<^verbatim>\<open>s.split(" ")\<close>: cut at every single space; the result is never empty.\<close>

fun str_split :: "char \<Rightarrow> string \<Rightarrow> string list" where
  "str_split sep [] = [[]]"
| "str_split sep (c # cs) =
     (if c = sep then [] # str_split sep cs
      else (case str_split sep cs of
              [] \<Rightarrow> [[c]]
            | w # ws \<Rightarrow> (c # w) # ws))"

definition parse_cron_expr :: "string \<Rightarrow> error + cron_fields" where
  \<comment> \<open>\<^verbatim>\<open>_parse_cron_expr\<close>, lines 89-97\<close>
  "parse_cron_expr cron_expr =
     (let fs = str_split (CHR '' '') cron_expr in
      if length fs < 5 then Inl IndexError
      else Inr \<lparr>minute = fs ! 0, hour = fs ! 1, day = fs ! 2,
                month = fs ! 3, day_of_week = fs ! 4\<rparr>)"

definition add_cron_job ::
  "'t lib \<Rightarrow> 't scheduler \<Rightarrow> string \<Rightarrow> string \<Rightarrow> string \<times> reminder \<Rightarrow> error + 't scheduler" where
  \<comment> \<open>\<^verbatim>\<open>scheduler.add_job(cb, "cron", id=i, **self._parse_cron_expr(c), args=a)\<close>\<close>
  "add_cron_job lib s i cron_expr a =
     (case parse_cron_expr cron_expr of
        Inl e \<Rightarrow> Inl e
      | Inr fs \<Rightarrow>
          if cron_trigger lib fs
          then add_job s \<lparr>job_id = i, job_trigger = Cron fs, job_args = a\<rparr>
          else Inl (ValueError Cron_field))"

definition add_date_job ::
  "'t lib \<Rightarrow> 't scheduler \<Rightarrow> string \<Rightarrow> string \<Rightarrow> string \<times> reminder \<Rightarrow> error + 't scheduler" where
  \<comment> \<open>\<^verbatim>\<open>run_date = strptime(s, fmt)\<close>, then \<^verbatim>\<open>scheduler.add_job(cb, "date", id=i, run_date=...)\<close>\<close>
  "add_date_job lib s i datetime_str a =
     (case strptime lib datetime_str time_format of
        None \<Rightarrow> Inl (ValueError Time_data)
      | Some run_date \<Rightarrow> add_job s \<lparr>job_id = i, job_trigger = Date run_date, job_args = a\<rparr>)"

subsection \<open>Adding a reminder\<close>

text \<open>
  \<^verbatim>\<open>_add_single_reminder\<close>, lines 99-144. The state in the result is the object
  as the call leaves it, also when it raises.
\<close>

definition append_reminder :: "string \<Rightarrow> reminder \<Rightarrow> 't plugin \<Rightarrow> 't plugin" where
  \<comment> \<open>\<^verbatim>\<open>self.reminder_data[umo].append(d)\<close>\<close>
  "append_reminder umo d st =
     st\<lparr>reminder_data :=
          AList.update umo (dict_get (reminder_data st) umo [] @ [d]) (reminder_data st)\<rparr>"

definition ensure_bucket :: "string \<Rightarrow> 't plugin \<Rightarrow> 't plugin" where
  \<comment> \<open>lines 101-102: \<^verbatim>\<open>if umo not in self.reminder_data: self.reminder_data[umo] = []\<close>\<close>
  "ensure_bucket umo st =
     (if map_of (reminder_data st) umo = None
      then st\<lparr>reminder_data := AList.update umo [] (reminder_data st)\<rparr>
      else st)"

definition cron_display :: "string option \<Rightarrow> string \<Rightarrow> string" where
  \<comment> \<open>lines 113 and 127-128: empty unless the label is truthy\<close>
  "cron_display human_readable_cron c =
     (case human_readable_cron of
        None \<Rightarrow> []
      | Some h \<Rightarrow> if h = [] then [] else h @ ''(Cron: '' @ c @ '')'')"

definition add_recurring ::
  "'t lib \<Rightarrow> string \<Rightarrow> reminder \<Rightarrow> string \<Rightarrow> string \<Rightarrow> string option \<Rightarrow> 't plugin \<Rightarrow>
   (error + string \<times> string) \<times> 't plugin" where
  \<comment> \<open>lines 116-128, the branch \<^verbatim>\<open>if cron_expression:\<close>\<close>
  "add_recurring lib umo d i c human_readable_cron st =
     (let d' = d\<lparr>r_cron := Some c, r_cron_h := human_readable_cron\<rparr>;
          st3 = append_reminder umo d' st
      in (case add_cron_job lib (scheduler st3) i c (umo, d') of
            Inl e \<Rightarrow> (Inl e, st3)
          | Inr s' \<Rightarrow>
              (Inr (r_text d, cron_display human_readable_cron c), st3\<lparr>scheduler := s'\<rparr>)))"

definition add_one_shot ::
  "'t lib \<Rightarrow> string \<Rightarrow> reminder \<Rightarrow> string \<Rightarrow> string option \<Rightarrow> 't plugin \<Rightarrow>
   (error + string \<times> string) \<times> 't plugin" where
  \<comment> \<open>lines 130-143, the \<^verbatim>\<open>else\<close> branch; \<^verbatim>\<open>strptime(None, ...)\<close> is a \<^verbatim>\<open>TypeError\<close>\<close>
  "add_one_shot lib umo d i datetime_str st =
     (case datetime_str of
        None \<Rightarrow> (Inl TypeError, append_reminder umo d st)
      | Some dt \<Rightarrow>
          let d' = d\<lparr>r_datetime := Some dt\<rparr>;
              st3 = append_reminder umo d' st
          in (case add_date_job lib (scheduler st3) i dt (umo, d') of
                Inl e \<Rightarrow> (Inl e, st3)
              | Inr s' \<Rightarrow> (Inr (r_text d, dt), st3\<lparr>scheduler := s'\<rparr>)))"

definition add_single_reminder ::
  "'t lib \<Rightarrow> string \<Rightarrow> string option \<Rightarrow> string option \<Rightarrow> string option \<Rightarrow> string option \<Rightarrow>
   't plugin \<Rightarrow> (error + string \<times> string) \<times> 't plugin" where
  "add_single_reminder lib umo text_arg datetime_str cron_expression human_readable_cron st =
     (let st1 = ensure_bucket umo st in
      if \<not> truthy cron_expression \<and> \<not> truthy datetime_str
      then (Inl (ValueError Both_none), st1)
      else
        let txt' = (case text_arg of
                      None \<Rightarrow> default_text
                    | Some t \<Rightarrow> if t = [] then default_text else t);
            i = uuid4 lib (uuid_drawn st1);
            st2 = st1\<lparr>uuid_drawn := Suc (uuid_drawn st1)\<rparr>;
            d = \<lparr>r_text = txt', r_id = Some i, r_datetime = None, r_cron = None,
                 r_cron_h = None\<rparr>
        in
        (case cron_expression of
           None \<Rightarrow> add_one_shot lib umo d i datetime_str st2
         | Some c \<Rightarrow>
             if c = [] then add_one_shot lib umo d i datetime_str st2
             else add_recurring lib umo d i c human_readable_cron st2))"

subsection \<open>Listing the upcoming reminders\<close>

text \<open>
  The list comprehension of lines 299-307: a reminder without the \<^verbatim>\<open>datetime\<close> key is
  kept; one with the key is parsed (which may raise) and kept when its time is not
  before \<open>now\<close>. The clock reading \<open>now\<close> is an argument.
\<close>

fun upcoming :: "('t::linorder) lib \<Rightarrow> 't \<Rightarrow> reminder list \<Rightarrow> error + reminder list" where
  "upcoming lib now [] = Inr []"
| "upcoming lib now (reminder # rest) =
     (case r_datetime reminder of
        None \<Rightarrow>
          (case upcoming lib now rest of
             Inl e \<Rightarrow> Inl e
           | Inr us \<Rightarrow> Inr (reminder # us))
      | Some s \<Rightarrow>
          (case strptime lib s time_format of
             None \<Rightarrow> Inl (ValueError Time_data)
           | Some reminder_time \<Rightarrow>
               (case upcoming lib now rest of
                  Inl e \<Rightarrow> Inl e
                | Inr us \<Rightarrow> Inr (if reminder_time \<ge> now then reminder # us else us))))"

definition get_upcoming_reminders ::
  "('t::linorder) lib \<Rightarrow> 't \<Rightarrow> string \<Rightarrow> 't plugin \<Rightarrow> (error + reminder list) \<times> 't plugin" where
  \<comment> \<open>lines 293-308; the method assigns nothing, so the object comes back as it was\<close>
  "get_upcoming_reminders lib now umo st =
     (let reminders = dict_get (reminder_data st) umo [] in
      if reminders = [] then (Inr [], st)
      else (upcoming lib now reminders, st))"

subsection \<open>Removing a reminder by position\<close>

text \<open>
  The replies of \<^verbatim>\<open>reminder_rm\<close> are fixed messages: \<open>No_reminders\<close> is the one of
  line 333 ("there are no to-do items"), \<open>Index_out_of_range\<close> the one of line 335
  ("index out of range"), \<open>Remove_job_failed e\<close> the warning of lines 350-352 (the
  item was removed, cancelling the timed job failed with \<open>e\<close>, a restart may be
  needed), \<open>Removed t\<close> the confirmation of line 354 followed by the text \<open>t\<close>.
\<close>

datatype reply =
    No_reminders
  | Index_out_of_range
  | Remove_job_failed error
  | Removed string

definition pop :: "nat \<Rightarrow> 'a list \<Rightarrow> 'a list" where
  \<comment> \<open>the list after \<^verbatim>\<open>xs.pop(i)\<close>, for \<open>i < length xs\<close>\<close>
  "pop i xs = take i xs @ drop (Suc i) xs"

text \<open>
  Lines 342-344 pop from the list they iterate over. The list iterator is a position
  \<open>i\<close> into the list as it is now, and \<^verbatim>\<open>enumerate\<close> counts the same \<open>i\<close>: after a pop
  at \<open>i\<close> the next element read is the one that stood at \<open>i + 2\<close>.
\<close>

function rm_loop :: "string option \<Rightarrow> nat \<Rightarrow> reminder list \<Rightarrow> reminder list" where
  "rm_loop job i users_reminders =
     (if i < length users_reminders
      then (if r_id (users_reminders ! i) = job
            then rm_loop job (Suc i) (pop i users_reminders)
            else rm_loop job (Suc i) users_reminders)
      else users_reminders)"
  by pat_completeness auto
termination
  by (relation "measure (\<lambda>(job, i, xs). length xs - i)") (auto simp: pop_def)

declare rm_loop.simps [simp del]

definition reminder_rm ::
  "('t::linorder) lib \<Rightarrow> 't \<Rightarrow> string \<Rightarrow> int \<Rightarrow> 't plugin \<Rightarrow> (error + reply list) \<times> 't plugin" where
  \<comment> \<open>lines 327-354; the replies are the messages yielded, in order\<close>
  "reminder_rm lib now umo index st =
     (case fst (get_upcoming_reminders lib now umo st) of
        Inl e \<Rightarrow> (Inl e, st)
      | Inr reminders \<Rightarrow>
          if reminders = [] then (Inr [No_reminders], st)
          else if index < 1 \<or> index > int (length reminders) then (Inr [Index_out_of_range], st)
          else
            let reminder = reminders ! nat (index - 1);
                job = r_id reminder;
                st1 = (case map_of (reminder_data st) umo of
                         None \<Rightarrow> st
                       | Some users_reminders \<Rightarrow>
                           st\<lparr>reminder_data :=
                                AList.update umo (rm_loop job 0 users_reminders)
                                  (reminder_data st)\<rparr>)
            in (case remove_job (scheduler st1) job of
                  Inl e \<Rightarrow>
                    (Inr [Remove_job_failed e, Removed (r_text reminder)], save_data st1)
                | Inr s' \<Rightarrow>
                    (Inr [Removed (r_text reminder)], save_data (st1\<lparr>scheduler := s'\<rparr>))))"

subsection \<open>Startup\<close>






subsection \<open>A concrete library for closed examples\<close>

text \<open>
  The examples below run the model on a small library: instants are the numbers
  \<open>YYYYMMDDhhmmss\<close>, the parser reads the zero-padded form \<^verbatim>\<open>YYYY-MM-DD HH:MM\<close>
  of a real calendar date (the form the format string names; the library itself also
  reads unpadded fields), the \<open>n\<close>-th identifier is \<open>u\<close> followed by \<open>n\<close> primes, and
  a cron field is accepted when it is \<^verbatim>\<open>*\<close> or a decimal number.
\<close>

definition digit_val :: "char \<Rightarrow> nat option" where
  "digit_val c = (let n = (of_char c :: nat) in if 48 \<le> n \<and> n \<le> 57 then Some (n - 48) else None)"

fun digits :: "nat \<Rightarrow> string \<Rightarrow> nat option" where
  "digits acc [] = Some acc"
| "digits acc (c # cs) =
     (case digit_val c of
        None \<Rightarrow> None
      | Some d \<Rightarrow> digits (10 * acc + d) cs)"

definition days_in_month :: "nat \<Rightarrow> nat \<Rightarrow> nat" where
  "days_in_month y m =
     (if m = 2 then (if y mod 4 = 0 \<and> (y mod 100 \<noteq> 0 \<or> y mod 400 = 0) then 29 else 28)
      else if m = 4 \<or> m = 6 \<or> m = 9 \<or> m = 11 then 30 else 31)"

definition strptime_padded :: "string \<Rightarrow> string \<Rightarrow> nat option" where
  "strptime_padded s fmt =
     (if fmt \<noteq> time_format \<or> length s \<noteq> 16 \<or> s ! 4 \<noteq> CHR ''-'' \<or> s ! 7 \<noteq> CHR ''-''
         \<or> s ! 10 \<noteq> CHR '' '' \<or> s ! 13 \<noteq> CHR '':''
      then None
      else
        (case (digits 0 (take 4 s), digits 0 (take 2 (drop 5 s)), digits 0 (take 2 (drop 8 s)),
               digits 0 (take 2 (drop 11 s)), digits 0 (take 2 (drop 14 s))) of
           (Some y, Some m, Some d, Some h, Some mi) \<Rightarrow>
             if 1 \<le> y \<and> 1 \<le> m \<and> m \<le> 12 \<and> 1 \<le> d \<and> d \<le> days_in_month y m \<and> h < 24 \<and> mi < 60
             then Some (((((y * 100 + m) * 100 + d) * 100 + h) * 100 + mi) * 100)
             else None
         | _ \<Rightarrow> None))"

definition cron_field_ok :: "string \<Rightarrow> bool" where
  "cron_field_ok f = (f = ''*'' \<or> (f \<noteq> [] \<and> digits 0 f \<noteq> None))"

definition example_lib :: "nat lib" where
  "example_lib =
     \<lparr>strptime = strptime_padded,
      uuid4 = (\<lambda>n. CHR ''u'' # replicate n (CHR 0x27)),
      cron_trigger = (\<lambda>f. cron_field_ok (minute f) \<and> cron_field_ok (hour f) \<and> cron_field_ok (day f)
                          \<and> cron_field_ok (month f) \<and> cron_field_ok (day_of_week f))\<rparr>"

definition fresh_plugin :: "nat plugin" where
  \<comment> \<open>the object after \<^verbatim>\<open>__init__\<close> on an empty file: no buckets, the engine started\<close>
  "fresh_plugin =
     \<lparr>reminder_data = [], scheduler = \<lparr>running = True, jobs = []\<rparr>, reminder_file = [],
      uuid_drawn = 0\<rparr>"

section \<open>The vocabulary of the specification\<close>

text \<open>
  The specification speaks of the schedule kind of a record, of its instant and of
  the records that are upcoming. The kind of a stored record is read the way
  \<^verbatim>\<open>_init_scheduler\<close> dispatches on it: one-shot when the \<^verbatim>\<open>datetime\<close> key is
  there, recurring when it is not and the \<^verbatim>\<open>cron\<close> key is.
\<close>

definition has_schedule :: "reminder \<Rightarrow> bool" where
  "has_schedule r = (r_datetime r \<noteq> None \<or> r_cron r \<noteq> None)"

definition is_recurring :: "reminder \<Rightarrow> bool" where
  "is_recurring r = (r_datetime r = None \<and> r_cron r \<noteq> None)"

definition one_shot_instant :: "'t lib \<Rightarrow> reminder \<Rightarrow> 't option" where
  "one_shot_instant lib r =
     (case r_datetime r of
        None \<Rightarrow> None
      | Some s \<Rightarrow> strptime lib s time_format)"

definition readable :: "'t lib \<Rightarrow> reminder \<Rightarrow> bool" where
  \<comment> \<open>the datetime string, when there is one, is in the stored format\<close>
  "readable lib r = (r_datetime r = None \<or> one_shot_instant lib r \<noteq> None)"

definition is_upcoming :: "('t::linorder) lib \<Rightarrow> 't \<Rightarrow> reminder \<Rightarrow> bool" where
  \<comment> \<open>recurring, or one-shot with an instant not before \<open>now\<close>\<close>
  "is_upcoming lib now r =
     (is_recurring r \<or>
      (case one_shot_instant lib r of
         None \<Rightarrow> False
       | Some t \<Rightarrow> now \<le> t))"

definition kept :: "('t::linorder) lib \<Rightarrow> 't \<Rightarrow> reminder \<Rightarrow> bool" where
  \<comment> \<open>the condition of the comprehension of lines 302-306, where the string parses\<close>
  "kept lib now r =
     (case r_datetime r of
        None \<Rightarrow> True
      | Some s \<Rightarrow>
          (case strptime lib s time_format of
             None \<Rightarrow> False
           | Some t \<Rightarrow> now \<le> t))"






section \<open>Example states\<close>

definition overdue_reminder :: reminder where
  "overdue_reminder =
     \<lparr>r_text = ''Dentist'', r_id = Some ''a'', r_datetime = Some ''2020-01-01 09:00'',
      r_cron = None, r_cron_h = None\<rparr>"

definition milk_reminder :: reminder where
  "milk_reminder =
     \<lparr>r_text = ''Buy milk'', r_id = Some ''b'', r_datetime = Some ''2030-01-01 09:00'',
      r_cron = None, r_cron_h = None\<rparr>"

definition weekly_reminder :: reminder where
  "weekly_reminder =
     \<lparr>r_text = ''Call mom'', r_id = Some ''c'', r_datetime = None,
      r_cron = Some ''0 9 * * 1'', r_cron_h = Some ''weekly''\<rparr>"

definition weekly_job :: "nat job" where
  "weekly_job =
     \<lparr>job_id = ''c'',
      job_trigger = Cron \<lparr>minute = ''0'', hour = ''9'', day = ''*'', month = ''*'',
                          day_of_week = ''1''\<rparr>,
      job_args = (''ctx'', weekly_reminder)\<rparr>"

definition midyear :: nat where
  \<comment> \<open>the clock reading 2025-06-15 12:00:00\<close>
  "midyear = 20250615120000"

definition busy_plugin :: "nat plugin" where
  \<comment> \<open>three stored reminders; the engine knows the weekly job only\<close>
  "busy_plugin =
     \<lparr>reminder_data = [(''ctx'', [overdue_reminder, milk_reminder, weekly_reminder])],
      scheduler = \<lparr>running = True, jobs = [weekly_job]\<rparr>,
      reminder_file = [(''ctx'', [overdue_reminder, milk_reminder, weekly_reminder])],
      uuid_drawn = 0\<rparr>"


section \<open>Properties\<close>

subsection \<open>Auxiliary facts\<close>

lemma update_absent: "map_of al k = None \<Longrightarrow> AList.update k v al = al @ [(k, v)]"
  by (induction al) (auto split: if_splits)

lemma str_split_not_Nil: "str_split sep s \<noteq> []"
  by (induction s) (auto split: list.splits)

lemma length_str_split: "length (str_split sep s) = Suc (count_list s sep)"
  by (induction s) (auto split: list.splits simp: str_split_not_Nil)

lemma str_split_word: "sep \<notin> set w \<Longrightarrow> str_split sep w = [w]"
  by (induction w) auto

lemma str_split_append:
  "sep \<notin> set w \<Longrightarrow> str_split sep (w @ sep # rest) = w # str_split sep rest"
  by (induction w) auto

lemma parse_cron_expr_error: "parse_cron_expr c = Inl e \<Longrightarrow> e = IndexError"
  by (simp add: parse_cron_expr_def Let_def split: if_splits)

lemma add_job_error: "add_job s j = Inl e \<Longrightarrow> e = ConflictingIdError"
  by (simp add: add_job_def split: if_splits)

lemma add_cron_job_error:
  "add_cron_job lib s i c a = Inl e \<Longrightarrow> e \<noteq> ValueError Both_none"
  by (auto simp: add_cron_job_def split: sum.splits if_splits
      dest: parse_cron_expr_error add_job_error)

lemma add_date_job_error:
  "add_date_job lib s i c a = Inl e \<Longrightarrow> e \<noteq> ValueError Both_none"
  by (auto simp: add_date_job_def split: option.splits dest: add_job_error)

subsection \<open>Cron field parsing\<close>

lemma parse_few: "count_list e (CHR '' '') < 4 \<Longrightarrow> parse_cron_expr e = Inl IndexError"
  by (simp add: parse_cron_expr_def Let_def length_str_split)

lemma parse_five:
  assumes "CHR '' '' \<notin> set m \<union> set h \<union> set d \<union> set mo \<union> set w"
  shows "parse_cron_expr (m @ '' '' @ h @ '' '' @ d @ '' '' @ mo @ '' '' @ w) =
       Inr \<lparr>minute = m, hour = h, day = d, month = mo, day_of_week = w\<rparr>"
  using assms by (simp add: parse_cron_expr_def Let_def str_split_append str_split_word)

lemma parse_more:
  assumes "CHR '' '' \<notin> set m \<union> set h \<union> set d \<union> set mo \<union> set w"
  shows "parse_cron_expr (m @ '' '' @ h @ '' '' @ d @ '' '' @ mo @ '' '' @ w @ '' '' @ rest) =
       Inr \<lparr>minute = m, hour = h, day = d, month = mo, day_of_week = w\<rparr>"
  using assms by (simp add: parse_cron_expr_def Let_def str_split_append length_str_split)

text \<open>
  C8, as the source has it. The expression is cut at every single space character
  and the first five pieces are the minute, hour, day, month and day-of-week fields.
  An expression with fewer than four spaces (fewer than five pieces) raises
  \<^verbatim>\<open>IndexError\<close>, and then no job is submitted; pieces after the fifth are ignored,
  so an expression with more than five fields parses like its first five.
\<close>

theorem parse_cron_expr_first_five:
  "(count_list e (CHR '' '') < 4 \<longrightarrow>
      parse_cron_expr e = Inl IndexError \<and> add_cron_job lib s i e a = Inl IndexError) \<and>
   (CHR '' '' \<notin> set m \<union> set h \<union> set d \<union> set mo \<union> set w \<longrightarrow>
      parse_cron_expr (m @ '' '' @ h @ '' '' @ d @ '' '' @ mo @ '' '' @ w) =
        Inr \<lparr>minute = m, hour = h, day = d, month = mo, day_of_week = w\<rparr> \<and>
      parse_cron_expr (m @ '' '' @ h @ '' '' @ d @ '' '' @ mo @ '' '' @ w @ '' '' @ rest) =
        Inr \<lparr>minute = m, hour = h, day = d, month = mo, day_of_week = w\<rparr>)"
  using parse_few [of e] parse_five [of m h d mo w] parse_more [of m h d mo w rest]
  by (simp add: add_cron_job_def)

theorem parse_cron_expr_first_five_witness:
  "count_list ''0 9'' (CHR '' '') < 4 \<and>
   CHR '' '' \<notin> set ''0'' \<union> set ''9'' \<union> set ''*'' \<union> set ''*'' \<union> set ''1'' \<and>
   parse_cron_expr ''0 9'' = Inl IndexError \<and>
   add_cron_job example_lib (scheduler fresh_plugin) ''u'' ''0 9''
     (''ctx'', \<lparr>r_text = ''x'', r_id = Some ''u'', r_datetime = None, r_cron = Some ''0 9'',
               r_cron_h = None\<rparr>) = Inl IndexError \<and>
   parse_cron_expr ''0 9 * * 1'' =
     Inr \<lparr>minute = ''0'', hour = ''9'', day = ''*'', month = ''*'', day_of_week = ''1''\<rparr> \<and>
   parse_cron_expr ''0 9 * * 1 2030'' =
     Inr \<lparr>minute = ''0'', hour = ''9'', day = ''*'', month = ''*'', day_of_week = ''1''\<rparr>"
  using parse_cron_expr_first_five [of "''0 9''" example_lib "scheduler fresh_plugin" "''u''"
      "(''ctx'', \<lparr>r_text = ''x'', r_id = Some ''u'', r_datetime = None, r_cron = Some ''0 9'',
                r_cron_h = None\<rparr>)"
      "''0''" "''9''" "''*''" "''*''" "''1''" "''2030''"]
  by simp

text \<open>
  C8 as stated fails: an expression of six fields is not refused. It parses to its
  first five fields, and adding a reminder with it submits a cron job.
\<close>

theorem parse_cron_expr_six_fields:
  "length (str_split (CHR '' '') ''0 9 * * 1 2030'') = 6 \<and>
   parse_cron_expr ''0 9 * * 1 2030'' =
     Inr \<lparr>minute = ''0'', hour = ''9'', day = ''*'', month = ''*'', day_of_week = ''1''\<rparr> \<and>
   fst (add_single_reminder example_lib ''ctx'' (Some ''Call mom'') None
          (Some ''0 9 * * 1 2030'') None fresh_plugin) = Inr (''Call mom'', []) \<and>
   map job_id (jobs (scheduler (snd (add_single_reminder example_lib ''ctx'' (Some ''Call mom'')
          None (Some ''0 9 * * 1 2030'') None fresh_plugin)))) = [''u'']"
  by code_simp

subsection \<open>Adding a reminder\<close>

lemma add_recurring_error: "fst (add_recurring lib umo d i c h st) \<noteq> Inl (ValueError Both_none)"
  by (auto simp: add_recurring_def Let_def split: sum.splits dest: add_cron_job_error)

lemma add_one_shot_error:
  "fst (add_one_shot lib umo d i dt st) \<noteq> Inl (ValueError Both_none)"
  by (auto simp: add_one_shot_def Let_def split: sum.splits option.splits dest: add_date_job_error)

lemma add_neither:
  assumes "\<not> truthy c" "\<not> truthy dt"
  shows "add_single_reminder lib umo t dt c h st = (Inl (ValueError Both_none), ensure_bucket umo st)"
  using assms by (simp add: add_single_reminder_def)

lemma add_raises_both_none_iff:
  "fst (add_single_reminder lib umo t dt c h st) = Inl (ValueError Both_none)
     \<longleftrightarrow> \<not> truthy c \<and> \<not> truthy dt"
proof (cases "\<not> truthy c \<and> \<not> truthy dt")
  case True
  then show ?thesis by (simp add: add_neither)
next
  case False
  then show ?thesis
    by (auto simp: add_single_reminder_def Let_def add_recurring_error add_one_shot_error
        split: option.splits)
qed

lemma add_cron_wins:
  "truthy c \<Longrightarrow> add_single_reminder lib umo t dt c h st = add_single_reminder lib umo t None c h st"
  by (cases c) (simp_all add: add_single_reminder_def Let_def truthy_def)

lemma dict_get_ensure_bucket:
  "dict_get (reminder_data (ensure_bucket umo st)) umo [] = dict_get (reminder_data st) umo []"
  by (simp add: ensure_bucket_def dict_get_def update_conv')

lemma scheduler_ensure_bucket: "scheduler (ensure_bucket umo st) = scheduler st"
  by (simp add: ensure_bucket_def)

text \<open>
  C3, as the source has it. \<^verbatim>\<open>_add_single_reminder\<close> raises its own
  \<^verbatim>\<open>ValueError\<close> (the invalid-schedule error) exactly when neither a datetime nor a
  cron expression is given, where \<^verbatim>\<open>None\<close> and the empty string both count as not
  given. In that case the records of the bucket and the jobs of the engine are
  unchanged. When both are given the call is not refused: the cron expression wins
  and the call behaves as if no datetime had been passed.
\<close>

theorem add_invalid_schedule_iff_neither:
  "(fst (add_single_reminder lib umo t dt c h st) = Inl (ValueError Both_none)
      \<longleftrightarrow> \<not> truthy c \<and> \<not> truthy dt) \<and>
   (\<not> truthy c \<and> \<not> truthy dt \<longrightarrow>
      dict_get (reminder_data (snd (add_single_reminder lib umo t dt c h st))) umo [] =
        dict_get (reminder_data st) umo [] \<and>
      scheduler (snd (add_single_reminder lib umo t dt c h st)) = scheduler st) \<and>
   (truthy c \<longrightarrow>
      add_single_reminder lib umo t dt c h st = add_single_reminder lib umo t None c h st)"
  using add_raises_both_none_iff [of lib umo t dt c h st] add_cron_wins [of c lib umo t dt h st]
  by (simp add: add_neither dict_get_ensure_bucket scheduler_ensure_bucket)

theorem add_invalid_schedule_iff_neither_witness:
  "(\<not> truthy None \<and> \<not> truthy (Some [])) \<and>
   fst (add_single_reminder example_lib ''ctx'' (Some ''Buy milk'') (Some []) None None
          fresh_plugin) = Inl (ValueError Both_none) \<and>
   dict_get (reminder_data (snd (add_single_reminder example_lib ''ctx'' (Some ''Buy milk'')
          (Some []) None None fresh_plugin))) ''ctx'' [] = [] \<and>
   truthy (Some ''0 9 * * 1'') \<and>
   add_single_reminder example_lib ''ctx'' (Some ''Buy milk'') (Some ''2030-01-01 09:00'')
       (Some ''0 9 * * 1'') None fresh_plugin =
     add_single_reminder example_lib ''ctx'' (Some ''Buy milk'') None
       (Some ''0 9 * * 1'') None fresh_plugin"
  using add_invalid_schedule_iff_neither [of example_lib "''ctx''" "Some ''Buy milk''" "Some []"
      None None fresh_plugin]
    add_invalid_schedule_iff_neither [of example_lib "''ctx''" "Some ''Buy milk''"
      "Some ''2030-01-01 09:00''" "Some ''0 9 * * 1''" None fresh_plugin]
  by (simp add: truthy_def dict_get_def fresh_plugin_def)

text \<open>
  C3 as stated fails: with both a datetime and a cron expression the call succeeds
  (as a recurring reminder) instead of raising.
\<close>

theorem add_both_kinds_accepted:
  "fst (add_single_reminder example_lib ''ctx'' (Some ''Buy milk'') (Some ''2030-01-01 09:00'')
          (Some ''0 9 * * 1'') None fresh_plugin) = Inr (''Buy milk'', []) \<and>
   map r_cron (dict_get (reminder_data (snd (add_single_reminder example_lib ''ctx''
          (Some ''Buy milk'') (Some ''2030-01-01 09:00'') (Some ''0 9 * * 1'') None
          fresh_plugin))) ''ctx'' []) = [Some ''0 9 * * 1'']"
  by code_simp

text \<open>
  C10. When the conversation has no bucket yet and neither a datetime nor a cron
  expression is given, the call raises and leaves the document with a new, empty
  bucket for the conversation at its end; nothing else changes.
\<close>

theorem add_empty_bucket_on_failure:
  assumes "map_of (reminder_data st) umo = None" and "\<not> truthy c" and "\<not> truthy dt"
  shows "add_single_reminder lib umo t dt c h st =
           (Inl (ValueError Both_none), st\<lparr>reminder_data := reminder_data st @ [(umo, [])]\<rparr>) \<and>
         map_of (reminder_data (snd (add_single_reminder lib umo t dt c h st))) umo = Some []"
proof -
  have "ensure_bucket umo st = st\<lparr>reminder_data := reminder_data st @ [(umo, [])]\<rparr>"
    using assms(1) by (simp add: ensure_bucket_def update_absent)
  moreover have "map_of (reminder_data st @ [(umo, [])]) umo = Some []"
    using assms(1) by (simp add: map_add_Some_iff)
  ultimately show ?thesis using assms(2,3) by (simp add: add_neither)
qed

theorem add_empty_bucket_on_failure_witness:
  "map_of (reminder_data fresh_plugin) ''ctx'' = None \<and> \<not> truthy None \<and>
   add_single_reminder example_lib ''ctx'' (Some ''Buy milk'') None None None fresh_plugin =
     (Inl (ValueError Both_none), fresh_plugin\<lparr>reminder_data := [(''ctx'', [])]\<rparr>) \<and>
   map_of (reminder_data (snd (add_single_reminder example_lib ''ctx'' (Some ''Buy milk'') None
     None None fresh_plugin))) ''ctx'' = Some []"
proof -
  have h: "map_of (reminder_data fresh_plugin) ''ctx'' = None" "\<not> truthy None"
    by (simp_all add: fresh_plugin_def truthy_def)
  show ?thesis
    using h add_empty_bucket_on_failure [OF h(1) h(2) h(2), of example_lib "Some ''Buy milk''" None]
    by (simp add: fresh_plugin_def)
qed

lemma add_recurring_display:
  "fst (add_recurring lib umo d i c h st) = Inr (x, y) \<Longrightarrow> y = cron_display h c"
  by (auto simp: add_recurring_def Let_def split: sum.splits)

lemma add_one_shot_display:
  "fst (add_one_shot lib umo d i dt st) = Inr (x, y) \<Longrightarrow> dt = Some y"
  by (auto simp: add_one_shot_def Let_def split: sum.splits option.splits)

text \<open>
  C9. When \<^verbatim>\<open>_add_single_reminder\<close> returns, the display time is the datetime
  string itself if the reminder is one-shot (no cron expression given); for a
  recurring reminder it is the label followed by \<^verbatim>\<open>(Cron: \<close>, the cron expression
  and \<^verbatim>\<open>)\<close> when a non-empty label is given, and empty when there is no label.
\<close>

theorem add_display_time:
  assumes "fst (add_single_reminder lib umo t dt c h st) = Inr (display_text, display_time)"
  shows "(\<not> truthy c \<longrightarrow> dt = Some display_time) \<and>
         (\<forall>cs hs. c = Some cs \<and> cs \<noteq> [] \<and> h = Some hs \<and> hs \<noteq> [] \<longrightarrow>
            display_time = hs @ ''(Cron: '' @ cs @ '')'') \<and>
         (truthy c \<and> \<not> truthy h \<longrightarrow> display_time = [])"
proof (cases "truthy c")
  case True
  then obtain cs where c: "c = Some cs" "cs \<noteq> []"
    by (auto simp: truthy_def split: option.splits)
  with assms have "display_time = cron_display h cs"
    by (auto simp: add_single_reminder_def Let_def truthy_def dest: add_recurring_display)
  with True c show ?thesis
    by (auto simp: cron_display_def truthy_def split: option.splits)
next
  case False
  with assms have "dt = Some display_time"
    by (cases "truthy dt")
       (auto simp: add_single_reminder_def Let_def truthy_def
          split: option.splits if_splits dest: add_one_shot_display)
  with False show ?thesis by (auto simp: truthy_def)
qed

text \<open>
  The scenario of the specification: the label is the UTF-8 text of five characters
  (Chinese for "every Monday at 9") and the cron expression is \<^verbatim>\<open>0 9 * * 1\<close>.
\<close>

theorem add_display_time_witness:
  "fst (add_single_reminder example_lib ''ctx'' (Some ''Call mom'') None (Some ''0 9 * * 1'')
          (Some [CHR 0xE6, CHR 0xAF, CHR 0x8F, CHR 0xE5, CHR 0x91, CHR 0xA8, CHR 0xE4, CHR 0xB8,
                 CHR 0x80, CHR 0x39, CHR 0xE7, CHR 0x82, CHR 0xB9]) fresh_plugin) =
     Inr (''Call mom'',
          [CHR 0xE6, CHR 0xAF, CHR 0x8F, CHR 0xE5, CHR 0x91, CHR 0xA8, CHR 0xE4, CHR 0xB8,
           CHR 0x80, CHR 0x39, CHR 0xE7, CHR 0x82, CHR 0xB9] @ ''(Cron: 0 9 * * 1)'') \<and>
   [CHR 0xE6, CHR 0xAF, CHR 0x8F, CHR 0xE5, CHR 0x91, CHR 0xA8, CHR 0xE4, CHR 0xB8,
    CHR 0x80, CHR 0x39, CHR 0xE7, CHR 0x82, CHR 0xB9] @ ''(Cron: 0 9 * * 1)'' =
   [CHR 0xE6, CHR 0xAF, CHR 0x8F, CHR 0xE5, CHR 0x91, CHR 0xA8, CHR 0xE4, CHR 0xB8,
    CHR 0x80, CHR 0x39, CHR 0xE7, CHR 0x82, CHR 0xB9] @ ''(Cron: '' @ ''0 9 * * 1'' @ '')''"
proof -
  have h: "fst (add_single_reminder example_lib ''ctx'' (Some ''Call mom'') None
          (Some ''0 9 * * 1'')
          (Some [CHR 0xE6, CHR 0xAF, CHR 0x8F, CHR 0xE5, CHR 0x91, CHR 0xA8, CHR 0xE4, CHR 0xB8,
                 CHR 0x80, CHR 0x39, CHR 0xE7, CHR 0x82, CHR 0xB9]) fresh_plugin) =
     Inr (''Call mom'',
          [CHR 0xE6, CHR 0xAF, CHR 0x8F, CHR 0xE5, CHR 0x91, CHR 0xA8, CHR 0xE4, CHR 0xB8,
           CHR 0x80, CHR 0x39, CHR 0xE7, CHR 0x82, CHR 0xB9] @ ''(Cron: 0 9 * * 1)'')"
    by code_simp
  show ?thesis using h add_display_time [OF h] by simp
qed

text \<open>
  C4 does not hold of the source: the record is appended before the datetime or the
  cron expression is parsed and before the job is submitted, and nothing takes it
  out again. With the datetime \<^verbatim>\<open>tomorrow\<close> the call raises the \<^verbatim>\<open>ValueError\<close> of
  \<^verbatim>\<open>strptime\<close>, with the cron expression \<^verbatim>\<open>0 9\<close> it raises \<^verbatim>\<open>IndexError\<close>; both
  times the bucket has the new record and the engine has no job.
\<close>

theorem add_failed_arming_keeps_record:
  "add_single_reminder example_lib ''ctx'' (Some ''Buy milk'') (Some ''tomorrow'') None None
       fresh_plugin =
     (Inl (ValueError Time_data),
      \<lparr>reminder_data =
         [(''ctx'', [\<lparr>r_text = ''Buy milk'', r_id = Some ''u'', r_datetime = Some ''tomorrow'',
                     r_cron = None, r_cron_h = None\<rparr>])],
       scheduler = \<lparr>running = True, jobs = []\<rparr>, reminder_file = [], uuid_drawn = 1\<rparr>) \<and>
   add_single_reminder example_lib ''ctx'' (Some ''Buy milk'') None (Some ''0 9'') None
       fresh_plugin =
     (Inl IndexError,
      \<lparr>reminder_data =
         [(''ctx'', [\<lparr>r_text = ''Buy milk'', r_id = Some ''u'', r_datetime = None,
                     r_cron = Some ''0 9'', r_cron_h = None\<rparr>])],
       scheduler = \<lparr>running = True, jobs = []\<rparr>, reminder_file = [], uuid_drawn = 1\<rparr>)"
  by code_simp

subsection \<open>Listing the upcoming reminders\<close>

lemma upcoming_filter:
  "\<forall>r\<in>set rs. readable lib r \<Longrightarrow> upcoming lib now rs = Inr (filter (kept lib now) rs)"
  by (induction rs)
     (auto simp: readable_def one_shot_instant_def kept_def split: option.splits)

lemma upcoming_Inr:
  "upcoming lib now rs = Inr us \<Longrightarrow> us = filter (kept lib now) rs \<and> (\<forall>r\<in>set rs. readable lib r)"
  by (induction rs arbitrary: us)
     (auto simp: readable_def one_shot_instant_def kept_def split: option.splits sum.splits)

lemma kept_is_upcoming: "has_schedule r \<Longrightarrow> kept lib now r = is_upcoming lib now r"
  by (auto simp: has_schedule_def kept_def is_upcoming_def is_recurring_def one_shot_instant_def
      split: option.splits)

lemma get_upcoming_Inr:
  assumes "fst (get_upcoming_reminders lib now umo st) = Inr us"
  shows "us = filter (kept lib now) (dict_get (reminder_data st) umo [])"
  using assms
  by (auto simp: get_upcoming_reminders_def Let_def dest: upcoming_Inr split: if_splits)

lemma get_upcoming_readable:
  assumes "\<forall>r\<in>set (dict_get (reminder_data st) umo []). readable lib r"
  shows "get_upcoming_reminders lib now umo st =
           (Inr (filter (kept lib now) (dict_get (reminder_data st) umo [])), st)"
  using assms by (simp add: get_upcoming_reminders_def Let_def upcoming_filter)

text \<open>
  C2. Where every record of the bucket has a schedule and every stored datetime is in
  the stored format, \<^verbatim>\<open>get_upcoming_reminders\<close> returns exactly the records of the
  bucket, in stored order, that are recurring or whose one-shot instant is not before
  \<open>now\<close>; the object comes back unchanged, so the overdue records stay in storage.
\<close>

theorem get_upcoming_reminders_filter:
  assumes "\<forall>r\<in>set (dict_get (reminder_data st) umo []). has_schedule r \<and> readable lib r"
  shows "get_upcoming_reminders lib now umo st =
           (Inr (filter (is_upcoming lib now) (dict_get (reminder_data st) umo [])), st)"
proof -
  have "filter (kept lib now) (dict_get (reminder_data st) umo []) =
        filter (is_upcoming lib now) (dict_get (reminder_data st) umo [])"
    using assms by (intro filter_cong refl) (simp add: kept_is_upcoming)
  with assms show ?thesis by (simp add: get_upcoming_readable)
qed


lemma strptime_2030:
  "strptime example_lib ''2030-01-01 09:00'' time_format = Some 20300101090000"
  by (simp add: example_lib_def strptime_padded_def time_format_def digit_val_def days_in_month_def)

lemma strptime_2020:
  "strptime example_lib ''2020-01-01 09:00'' time_format = Some 20200101090000"
  by (simp add: example_lib_def strptime_padded_def time_format_def digit_val_def days_in_month_def)

lemma busy_bucket:
  "dict_get (reminder_data busy_plugin) ''ctx'' [] = [overdue_reminder, milk_reminder, weekly_reminder]"
  by (simp add: busy_plugin_def dict_get_def)

lemma example_kinds:
  "has_schedule overdue_reminder" "has_schedule milk_reminder" "has_schedule weekly_reminder"
  "readable example_lib overdue_reminder" "readable example_lib milk_reminder"
  "readable example_lib weekly_reminder"
  by (simp_all add: has_schedule_def readable_def one_shot_instant_def overdue_reminder_def
      milk_reminder_def weekly_reminder_def strptime_2030 strptime_2020)

lemma example_upcoming:
  "\<not> is_upcoming example_lib midyear overdue_reminder"
  "is_upcoming example_lib midyear milk_reminder"
  "is_upcoming example_lib midyear weekly_reminder"
  by (simp_all add: is_upcoming_def is_recurring_def one_shot_instant_def overdue_reminder_def
      milk_reminder_def weekly_reminder_def strptime_2030 strptime_2020 midyear_def)

theorem get_upcoming_reminders_filter_witness:
  "list_all (\<lambda>r. has_schedule r \<and> readable example_lib r)
     (dict_get (reminder_data busy_plugin) ''ctx'' []) \<and>
   get_upcoming_reminders example_lib midyear ''ctx'' busy_plugin =
     (Inr [milk_reminder, weekly_reminder], busy_plugin)"
proof -
  have h: "\<forall>r\<in>set (dict_get (reminder_data busy_plugin) ''ctx'' []). has_schedule r \<and> readable example_lib r"
    by (simp add: busy_bucket example_kinds)
  show ?thesis
    using h get_upcoming_reminders_filter [OF h, of midyear]
    by (simp add: list_all_iff busy_bucket example_upcoming)
qed

subsection \<open>Removing a reminder by position\<close>

lemma rm_loop_end: "rm_loop j (length xs) xs = xs"
  by (subst rm_loop.simps) simp

lemma rm_loop_distinct:
  "distinct (map r_id ys) \<Longrightarrow>
   rm_loop j (length xs) (xs @ ys) = xs @ filter (\<lambda>r. r_id r \<noteq> j) ys"
proof (induction ys arbitrary: xs rule: length_induct)
  case (1 ys)
  note IH = "1.IH" [rule_format]
  show ?case
  proof (cases ys)
    case Nil
    then show ?thesis by (simp add: rm_loop_end)
  next
    case (Cons y ys')
    from "1.prems" Cons have dy: "distinct (map r_id ys')" by simp
    show ?thesis
    proof (cases "r_id y = j")
      case False
      have "rm_loop j (length xs) (xs @ ys) = rm_loop j (length (xs @ [y])) ((xs @ [y]) @ ys')"
        unfolding Cons using False by (subst rm_loop.simps) simp
      also have "\<dots> = (xs @ [y]) @ filter (\<lambda>r. r_id r \<noteq> j) ys'"
        by (rule IH [of ys' "xs @ [y]"]) (simp_all add: Cons dy)
      finally show ?thesis using False by (simp add: Cons)
    next
      case True
      have step: "rm_loop j (length xs) (xs @ ys) = rm_loop j (Suc (length xs)) (xs @ ys')"
        unfolding Cons using True by (subst rm_loop.simps) (simp add: pop_def)
      show ?thesis
      proof (cases ys')
        case Nil
        have "rm_loop j (Suc (length xs)) xs = xs"
          by (subst rm_loop.simps) simp
        with step Nil True show ?thesis by (simp add: Cons)
      next
        case (Cons z zs)
        from "1.prems" True \<open>ys = y # ys'\<close> Cons have z: "r_id z \<noteq> j" and d: "distinct (map r_id zs)"
          by auto
        have "rm_loop j (Suc (length xs)) (xs @ ys') = rm_loop j (length (xs @ [z])) ((xs @ [z]) @ zs)"
          by (simp add: Cons)
        also have "\<dots> = (xs @ [z]) @ filter (\<lambda>r. r_id r \<noteq> j) zs"
          by (rule IH [of zs "xs @ [z]"]) (simp_all add: Cons \<open>ys = y # ys'\<close> d)
        finally show ?thesis using step True z by (simp add: Cons \<open>ys = y # ys'\<close>)
      qed
    qed
  qed
qed

lemma rm_loop_filter:
  "distinct (map r_id ys) \<Longrightarrow> rm_loop j 0 ys = filter (\<lambda>r. r_id r \<noteq> j) ys"
  using rm_loop_distinct [of ys j "[]"] by simp

lemma filter_id_remove1:
  "distinct (map r_id ys) \<Longrightarrow> x \<in> set ys \<Longrightarrow> filter (\<lambda>r. r_id r \<noteq> r_id x) ys = remove1 x ys"
proof (induction ys)
  case Nil
  then show ?case by simp
next
  case (Cons a ys)
  show ?case
  proof (cases "x = a")
    case True
    with Cons.prems have "\<forall>r\<in>set ys. r_id r \<noteq> r_id x" by (auto simp: image_iff)
    then have "filter (\<lambda>r. r_id r \<noteq> r_id x) ys = ys" by (simp add: filter_id_conv)
    with True show ?thesis by simp
  next
    case False
    with Cons.prems have "x \<in> set ys" "r_id a \<noteq> r_id x" by (auto simp: image_iff)
    with Cons False show ?thesis by simp
  qed
qed

lemma dict_get_update: "dict_get (AList.update k v d) k dflt = v"
  by (simp add: dict_get_def update_conv')

lemma reminder_rm_invalid:
  assumes "fst (get_upcoming_reminders lib now umo st) = Inr ups"
    and "k < 1 \<or> int (length ups) < k"
  shows "reminder_rm lib now umo k st =
           (Inr [if ups = [] then No_reminders else Index_out_of_range], st)"
  using assms by (auto simp: reminder_rm_def)

lemma reminder_rm_valid:
  assumes up: "fst (get_upcoming_reminders lib now umo st) = Inr ups"
    and k: "1 \<le> k" "k \<le> int (length ups)"
    and ids: "distinct (map r_id (dict_get (reminder_data st) umo []))"
  shows "reminder_rm lib now umo k st =
     (case remove_job (scheduler st) (r_id (ups ! nat (k - 1))) of
        Inl e \<Rightarrow>
          (Inr [Remove_job_failed e, Removed (r_text (ups ! nat (k - 1)))],
           save_data (st\<lparr>reminder_data :=
              AList.update umo (remove1 (ups ! nat (k - 1)) (dict_get (reminder_data st) umo []))
                (reminder_data st)\<rparr>))
      | Inr s' \<Rightarrow>
          (Inr [Removed (r_text (ups ! nat (k - 1)))],
           save_data (st\<lparr>reminder_data :=
              AList.update umo (remove1 (ups ! nat (k - 1)) (dict_get (reminder_data st) umo []))
                (reminder_data st), scheduler := s'\<rparr>)))"
proof -
  define bucket where "bucket = dict_get (reminder_data st) umo []"
  define target where "target = ups ! nat (k - 1)"
  from k have ne: "ups \<noteq> []" and idx: "nat (k - 1) < length ups" by auto
  from up have ups: "ups = filter (kept lib now) bucket"
    unfolding bucket_def by (rule get_upcoming_Inr)
  from idx have "target \<in> set ups" unfolding target_def by simp
  with ups have mem: "target \<in> set bucket" by simp
  then have "bucket \<noteq> []" by auto
  then have look: "map_of (reminder_data st) umo = Some bucket"
    unfolding bucket_def dict_get_def by (auto split: option.splits)
  have loop: "rm_loop (r_id target) 0 bucket = remove1 target bucket"
    using ids mem unfolding bucket_def [symmetric]
    by (simp add: rm_loop_filter filter_id_remove1)
  show ?thesis
    unfolding bucket_def [symmetric] target_def [symmetric]
    using up ne k look loop
    by (simp add: reminder_rm_def Let_def target_def [symmetric] split: sum.splits)
qed

lemma busy_upcoming:
  "get_upcoming_reminders example_lib midyear ''ctx'' busy_plugin =
     (Inr [milk_reminder, weekly_reminder], busy_plugin)"
proof -
  have "\<forall>r\<in>set (dict_get (reminder_data busy_plugin) ''ctx'' []). readable example_lib r"
    by (simp add: busy_bucket example_kinds)
  then show ?thesis
    by (simp add: get_upcoming_readable busy_bucket kept_is_upcoming example_kinds example_upcoming)
qed

lemma busy_distinct: "distinct (map r_id (dict_get (reminder_data busy_plugin) ''ctx'' []))"
  by (simp add: busy_bucket overdue_reminder_def milk_reminder_def weekly_reminder_def)

text \<open>
  C5, as the source has it. For a position below 1 or above the number of upcoming
  reminders, \<^verbatim>\<open>reminder_rm\<close> changes nothing (document, file and jobs are as before)
  and replies with one message: the index-out-of-range message when there are
  upcoming reminders, the no-reminders message when there are none.
\<close>

theorem reminder_rm_bad_position:
  assumes "fst (get_upcoming_reminders lib now umo st) = Inr ups"
    and "k < 1 \<or> int (length ups) < k"
  shows "reminder_rm lib now umo k st =
           (Inr [if ups = [] then No_reminders else Index_out_of_range], st)"
  using assms by (auto simp: reminder_rm_def)

theorem reminder_rm_bad_position_witness:
  "fst (get_upcoming_reminders example_lib midyear ''ctx'' busy_plugin) =
     Inr [milk_reminder, weekly_reminder] \<and>
   ((3::int) < 1 \<or> int (length [milk_reminder, weekly_reminder]) < 3) \<and>
   reminder_rm example_lib midyear ''ctx'' 3 busy_plugin = (Inr [Index_out_of_range], busy_plugin)"
proof -
  have h1: "fst (get_upcoming_reminders example_lib midyear ''ctx'' busy_plugin) =
     Inr [milk_reminder, weekly_reminder]"
    by (simp add: busy_upcoming)
  have h2: "(3::int) < 1 \<or> int (length [milk_reminder, weekly_reminder]) < 3" by simp
  show ?thesis using h1 h2 reminder_rm_bad_position [OF h1 h2] by simp
qed

text \<open>
  C5 as stated fails where nothing is upcoming: the guard of line 332 answers first,
  with the no-reminders message, whatever the position.
\<close>

theorem reminder_rm_empty_reply:
  "fst (get_upcoming_reminders example_lib midyear ''ctx'' fresh_plugin) = Inr [] \<and>
   reminder_rm example_lib midyear ''ctx'' 0 fresh_plugin = (Inr [No_reminders], fresh_plugin) \<and>
   fst (reminder_rm example_lib midyear ''ctx'' 0 fresh_plugin) \<noteq> Inr [Index_out_of_range]"
  by (simp add: reminder_rm_def get_upcoming_reminders_def dict_get_def fresh_plugin_def)

text \<open>
  C6. For a valid position in a bucket whose ids are distinct, when cancelling the
  job fails with an error \<open>e\<close> the removal still happens: the replies are the warning
  carrying \<open>e\<close> followed by the confirmation with the text of the record, the record is
  gone from the bucket, the file is rewritten with the new document, and the jobs
  are untouched.
\<close>

theorem reminder_rm_disarm_failure:
  assumes up: "fst (get_upcoming_reminders lib now umo st) = Inr ups"
    and k: "1 \<le> k" "k \<le> int (length ups)"
    and ids: "distinct (map r_id (dict_get (reminder_data st) umo []))"
    and fail: "remove_job (scheduler st) (r_id (ups ! nat (k - 1))) = Inl e"
  shows "fst (reminder_rm lib now umo k st) =
           Inr [Remove_job_failed e, Removed (r_text (ups ! nat (k - 1)))] \<and>
         dict_get (reminder_data (snd (reminder_rm lib now umo k st))) umo [] =
           remove1 (ups ! nat (k - 1)) (dict_get (reminder_data st) umo []) \<and>
         ups ! nat (k - 1) \<notin> set (dict_get (reminder_data (snd (reminder_rm lib now umo k st))) umo []) \<and>
         reminder_file (snd (reminder_rm lib now umo k st)) =
           reminder_data (snd (reminder_rm lib now umo k st)) \<and>
         scheduler (snd (reminder_rm lib now umo k st)) = scheduler st"
proof -
  from ids have "distinct (dict_get (reminder_data st) umo [])"
    by (simp add: distinct_map)
  then have "ups ! nat (k - 1) \<notin> set (remove1 (ups ! nat (k - 1)) (dict_get (reminder_data st) umo []))"
    by simp
  then show ?thesis
    using fail by (simp add: reminder_rm_valid [OF up k ids] save_data_def dict_get_update)
qed

lemma milk_text: "r_text milk_reminder = ''Buy milk''"
  by (simp add: milk_reminder_def)

lemma busy_no_milk_job:
  "remove_job (scheduler busy_plugin) (r_id milk_reminder) = Inl JobLookupError"
  by (simp add: remove_job_def busy_plugin_def milk_reminder_def weekly_job_def)

theorem reminder_rm_disarm_failure_witness:
  "fst (get_upcoming_reminders example_lib midyear ''ctx'' busy_plugin) =
     Inr [milk_reminder, weekly_reminder] \<and>
   (1::int) \<le> 1 \<and> 1 \<le> int (length [milk_reminder, weekly_reminder]) \<and>
   distinct (map r_id (dict_get (reminder_data busy_plugin) ''ctx'' [])) \<and>
   remove_job (scheduler busy_plugin) (r_id ([milk_reminder, weekly_reminder] ! nat (1 - 1))) =
     Inl JobLookupError \<and>
   fst (reminder_rm example_lib midyear ''ctx'' 1 busy_plugin) =
     Inr [Remove_job_failed JobLookupError, Removed ''Buy milk''] \<and>
   dict_get (reminder_data (snd (reminder_rm example_lib midyear ''ctx'' 1 busy_plugin))) ''ctx'' [] =
     [overdue_reminder, weekly_reminder] \<and>
   reminder_file (snd (reminder_rm example_lib midyear ''ctx'' 1 busy_plugin)) =
     [(''ctx'', [overdue_reminder, weekly_reminder])]"
proof -
  have h1: "fst (get_upcoming_reminders example_lib midyear ''ctx'' busy_plugin) =
     Inr [milk_reminder, weekly_reminder]"
    by (simp add: busy_upcoming)
  have h2: "(1::int) \<le> 1" "1 \<le> int (length [milk_reminder, weekly_reminder])" by simp_all
  have h3: "remove_job (scheduler busy_plugin) (r_id ([milk_reminder, weekly_reminder] ! nat (1 - 1))) =
     Inl JobLookupError"
    by (simp add: busy_no_milk_job)
  note t = reminder_rm_disarm_failure [OF h1 h2 busy_distinct h3]
  have ne: "milk_reminder \<noteq> overdue_reminder"
    by (simp add: milk_reminder_def overdue_reminder_def)
  have "reminder_data (snd (reminder_rm example_lib midyear ''ctx'' 1 busy_plugin)) =
     [(''ctx'', [overdue_reminder, weekly_reminder])]"
    by (simp add: reminder_rm_valid [OF h1 h2 busy_distinct] busy_no_milk_job save_data_def
        busy_bucket ne) (simp add: busy_plugin_def)
  with t h1 h2 h3 busy_distinct ne show ?thesis
    by (simp add: busy_bucket milk_text)
qed

lemma get_upcoming_bucket_readable:
  assumes "fst (get_upcoming_reminders lib now umo st) = Inr ups"
  shows "\<forall>r\<in>set (dict_get (reminder_data st) umo []). readable lib r"
  using assms
  by (auto simp: get_upcoming_reminders_def Let_def dest: upcoming_Inr split: if_splits)

text \<open>
  C1. For a position \<open>k\<close> from 1 to the number of upcoming reminders, in a bucket
  whose ids are distinct, \<^verbatim>\<open>reminder_rm\<close> confirms the removal with the text of the
  \<open>k\<close>-th upcoming reminder as listed before the call (after the warning, if
  cancelling the job failed); that record is taken out of the full bucket and no
  record with its id is left there; and listing the upcoming reminders afterwards,
  at any clock reading, succeeds and shows no record with that id.
\<close>

theorem reminder_rm_removes_position:
  assumes up: "fst (get_upcoming_reminders lib now umo st) = Inr ups"
    and k: "1 \<le> k" "k \<le> int (length ups)"
    and ids: "distinct (map r_id (dict_get (reminder_data st) umo []))"
  shows "fst (reminder_rm lib now umo k st) =
           Inr ((case remove_job (scheduler st) (r_id (ups ! nat (k - 1))) of
                   Inl e \<Rightarrow> [Remove_job_failed e]
                 | Inr s' \<Rightarrow> []) @ [Removed (r_text (ups ! nat (k - 1)))]) \<and>
         ups ! nat (k - 1) \<in> set (dict_get (reminder_data st) umo []) \<and>
         dict_get (reminder_data (snd (reminder_rm lib now umo k st))) umo [] =
           remove1 (ups ! nat (k - 1)) (dict_get (reminder_data st) umo []) \<and>
         (\<forall>r\<in>set (dict_get (reminder_data (snd (reminder_rm lib now umo k st))) umo []).
            r_id r \<noteq> r_id (ups ! nat (k - 1))) \<and>
         (\<forall>now'. fst (get_upcoming_reminders lib now' umo (snd (reminder_rm lib now umo k st))) =
            Inr (filter (kept lib now')
                   (remove1 (ups ! nat (k - 1)) (dict_get (reminder_data st) umo []))) \<and>
            (\<forall>r\<in>set (filter (kept lib now')
                   (remove1 (ups ! nat (k - 1)) (dict_get (reminder_data st) umo []))).
               r_id r \<noteq> r_id (ups ! nat (k - 1))))"
proof -
  define bucket where "bucket = dict_get (reminder_data st) umo []"
  define target where "target = ups ! nat (k - 1)"
  define st' where "st' = snd (reminder_rm lib now umo k st)"
  from k have idx: "nat (k - 1) < length ups" by auto
  from up have ups: "ups = filter (kept lib now) bucket"
    unfolding bucket_def by (rule get_upcoming_Inr)
  from idx have "target \<in> set ups" unfolding target_def by simp
  with ups have mem: "target \<in> set bucket" by simp
  have rd: "\<forall>r\<in>set bucket. readable lib r"
    unfolding bucket_def using up by (rule get_upcoming_bucket_readable)
  have rm: "remove1 target bucket = filter (\<lambda>r. r_id r \<noteq> r_id target) bucket"
    using ids mem unfolding bucket_def [symmetric] by (simp add: filter_id_remove1)
  have out: "\<forall>r\<in>set (remove1 target bucket). r_id r \<noteq> r_id target"
    unfolding rm by simp
  have b': "dict_get (reminder_data st') umo [] = remove1 target bucket"
    unfolding st'_def bucket_def target_def
    by (simp add: reminder_rm_valid [OF up k ids] save_data_def dict_get_update split: sum.splits)
  have reply: "fst (reminder_rm lib now umo k st) =
           Inr ((case remove_job (scheduler st) (r_id target) of
                   Inl e \<Rightarrow> [Remove_job_failed e]
                 | Inr s' \<Rightarrow> []) @ [Removed (r_text target)])"
    unfolding target_def
    by (simp add: reminder_rm_valid [OF up k ids] split: sum.splits)
  have later: "fst (get_upcoming_reminders lib now' umo st') =
            Inr (filter (kept lib now') (remove1 target bucket))" for now'
  proof -
    have "\<forall>r\<in>set (dict_get (reminder_data st') umo []). readable lib r"
      unfolding b' using rd by (auto dest: notin_set_remove1)
    then show ?thesis by (simp add: get_upcoming_readable b')
  qed
  show ?thesis
    using reply mem b' out later
    unfolding bucket_def target_def st'_def by simp
qed

lemma busy_weekly_job:
  "remove_job (scheduler busy_plugin) (r_id weekly_reminder) =
     Inr \<lparr>running = True, jobs = []\<rparr>"
  by (simp add: remove_job_def busy_plugin_def weekly_reminder_def weekly_job_def)

theorem reminder_rm_removes_position_witness:
  "fst (get_upcoming_reminders example_lib midyear ''ctx'' busy_plugin) =
     Inr [milk_reminder, weekly_reminder] \<and>
   (1::int) \<le> 2 \<and> 2 \<le> int (length [milk_reminder, weekly_reminder]) \<and>
   distinct (map r_id (dict_get (reminder_data busy_plugin) ''ctx'' [])) \<and>
   fst (reminder_rm example_lib midyear ''ctx'' 2 busy_plugin) = Inr [Removed ''Call mom''] \<and>
   dict_get (reminder_data (snd (reminder_rm example_lib midyear ''ctx'' 2 busy_plugin))) ''ctx'' [] =
     [overdue_reminder, milk_reminder] \<and>
   fst (get_upcoming_reminders example_lib midyear ''ctx''
          (snd (reminder_rm example_lib midyear ''ctx'' 2 busy_plugin))) = Inr [milk_reminder]"
proof -
  have h1: "fst (get_upcoming_reminders example_lib midyear ''ctx'' busy_plugin) =
     Inr [milk_reminder, weekly_reminder]"
    by (simp add: busy_upcoming)
  have h2: "(1::int) \<le> 2" "2 \<le> int (length [milk_reminder, weekly_reminder])" by simp_all
  have ne: "weekly_reminder \<noteq> overdue_reminder" "weekly_reminder \<noteq> milk_reminder"
    by (simp_all add: milk_reminder_def overdue_reminder_def weekly_reminder_def)
  have kp: "\<not> kept example_lib midyear overdue_reminder" "kept example_lib midyear milk_reminder"
    by (simp_all add: kept_is_upcoming example_kinds example_upcoming)
  have tx: "r_text weekly_reminder = ''Call mom''" by (simp add: weekly_reminder_def)
  show ?thesis
    using h1 h2 busy_distinct reminder_rm_removes_position [OF h1 h2 busy_distinct]
    by (simp add: busy_bucket busy_weekly_job ne kp tx)
qed

text \<open>
  The hypothesis on the ids is needed: the loop of lines 342-344 pops from the list
  it walks, so the record after a removed one is never examined. Of two neighbours
  with the same id only the first goes.
\<close>

lemma rm_loop_skips_neighbour:
  "rm_loop (Some ''b'') 0 [milk_reminder, milk_reminder\<lparr>r_text := ''Buy bread''\<rparr>] =
     [milk_reminder\<lparr>r_text := ''Buy bread''\<rparr>]"
  by code_simp

subsection \<open>Startup reconciliation\<close>













lemma strptime_2030_date:
  "strptime_padded ''2030-01-01 09:00'' time_format = Some 20300101090000"
  using strptime_2030 by (simp add: example_lib_def)







end
